theory Spec2Isabelle
  imports Main
begin

section \<open>The book service: data and environment\<close>

text \<open>
  The program is a single file, \<^verbatim>\<open>main.go\<close>: five HTTP handlers over one table
  \<^verbatim>\<open>books\<close>, sharing the package-level handle \<^verbatim>\<open>db\<close>. A handler receives a
  response writer and a request, and talks to the database. Here a handler is a function
  from the writer, the request and the database state to the writer and the database state
  it leaves behind.

  Three libraries stand between the handlers and the outside: \<^verbatim>\<open>net/http\<close> (the
  response writer), \<^verbatim>\<open>database/sql\<close> with the PostgreSQL driver (the statements) and
  \<^verbatim>\<open>encoding/json\<close>. What the handlers can observe of them is written out below;
  what depends on the version of a library or of the server (the text of a JSON string
  literal, the outcome of decoding a request body, the input syntax of the integer type)
  is a parameter, so that every theorem holds for each of their behaviours.
\<close>

subsection \<open>The entity\<close>

text \<open>\<^verbatim>\<open>type Book struct\<close>. The zero value is what \<^verbatim>\<open>var book Book\<close> declares.\<close>

record Book =
  ID :: int
  Title :: string
  Author :: string
  ISBN :: string

definition Book_zero :: Book where
  "Book_zero = \<lparr>ID = 0, Title = [], Author = [], ISBN = []\<rparr>"

text \<open>
  A Go slice is \<^verbatim>\<open>nil\<close> or holds elements; \<^verbatim>\<open>var books []Book\<close> is \<^verbatim>\<open>nil\<close>, and
  \<^verbatim>\<open>append\<close> to a \<^verbatim>\<open>nil\<close> slice gives a slice of one element. \<open>None\<close> is \<^verbatim>\<open>nil\<close>.
\<close>

type_synonym 'a slice = "'a list option"

fun append_slice :: "'a slice \<Rightarrow> 'a \<Rightarrow> 'a slice" where
  "append_slice None x = Some [x]"
| "append_slice (Some xs) x = Some (xs @ [x])"

subsection \<open>The response writer\<close>

text \<open>
  \<^verbatim>\<open>http.ResponseWriter\<close> as the server implements it. \<open>Header\<close> is the map the
  handler edits; the first \<^verbatim>\<open>WriteHeader\<close> fixes the status and the header that goes
  out (\<open>sent\<close>), a later one is ignored (the server logs it as superfluous);
  \<^verbatim>\<open>Write\<close> sends status 200 first when no status was sent, and appends to the body.
  The program only uses the status codes 200, 201, 400 and 500.
\<close>

record ResponseWriter =
  Header :: "string \<rightharpoonup> string list"
  wroteHeader :: bool
  status :: nat
  sent :: "string \<rightharpoonup> string list"
  body :: string

definition ResponseWriter_new :: ResponseWriter where
  "ResponseWriter_new =
     \<lparr>Header = Map.empty, wroteHeader = False, status = 0, sent = Map.empty, body = []\<rparr>"

abbreviation StatusOK :: nat where "StatusOK \<equiv> 200"
abbreviation StatusCreated :: nat where "StatusCreated \<equiv> 201"
abbreviation StatusBadRequest :: nat where "StatusBadRequest \<equiv> 400"
abbreviation StatusInternalServerError :: nat where "StatusInternalServerError \<equiv> 500"

definition Header_Set :: "ResponseWriter \<Rightarrow> string \<Rightarrow> string \<Rightarrow> ResponseWriter" where
  "Header_Set w k v = w\<lparr>Header := (Header w)(k \<mapsto> [v])\<rparr>"

definition Header_Del :: "ResponseWriter \<Rightarrow> string \<Rightarrow> ResponseWriter" where
  "Header_Del w k = w\<lparr>Header := (Header w)(k := None)\<rparr>"

definition WriteHeader :: "ResponseWriter \<Rightarrow> nat \<Rightarrow> ResponseWriter" where
  "WriteHeader w code =
     (if wroteHeader w then w
      else w\<lparr>wroteHeader := True, status := code, sent := Header w\<rparr>)"

definition Write :: "ResponseWriter \<Rightarrow> string \<Rightarrow> ResponseWriter" where
  "Write w b =
     (let w' = (if wroteHeader w then w else WriteHeader w StatusOK)
      in w'\<lparr>body := body w' @ b\<rparr>)"

abbreviation newline :: char where "newline \<equiv> CHR 0x0A"

text \<open>\<^verbatim>\<open>fmt.Fprintln(w, s)\<close>: the text and a line feed, in one write.\<close>

definition Fprintln :: "ResponseWriter \<Rightarrow> string \<Rightarrow> ResponseWriter" where
  "Fprintln w s = Write w (s @ [newline])"

text \<open>
  \<^verbatim>\<open>http.Error(w, error, code)\<close>: the header is made plain text, the status is
  written, the error text follows as a line.
\<close>

definition http_Error :: "ResponseWriter \<Rightarrow> string \<Rightarrow> nat \<Rightarrow> ResponseWriter" where
  "http_Error w err code =
     (let w1 = Header_Del w ''Content-Length'';
          w2 = Header_Set w1 ''Content-Type'' ''text/plain; charset=utf-8'';
          w3 = Header_Set w2 ''X-Content-Type-Options'' ''nosniff'';
          w4 = WriteHeader w3 code
      in Fprintln w4 err)"

subsection \<open>JSON\<close>

text \<open>
  \<^verbatim>\<open>json.NewEncoder(w).Encode(v)\<close> writes the encoding of \<open>v\<close> and a line feed.
  A \<^verbatim>\<open>Book\<close> is an object with the keys of its field tags, in the order of the fields;
  an \<^verbatim>\<open>int\<close> is its decimal numeral; a slice is an array, and a \<^verbatim>\<open>nil\<close> slice is
  \<^verbatim>\<open>null\<close>. The string literal of a Go string (its quotes and escapes) is the
  parameter \<open>q\<close>.
\<close>

type_synonym quoter = "string \<Rightarrow> string"

fun digits :: "nat \<Rightarrow> string" where
  "digits n =
     (if n < 10 then [''0123456789'' ! n]
      else digits (n div 10) @ [''0123456789'' ! (n mod 10)])"

declare digits.simps [simp del]

definition itoa :: "int \<Rightarrow> string" where
  "itoa i = (if i < 0 then CHR ''-'' # digits (nat (- i)) else digits (nat i))"

definition marshal_Book :: "quoter \<Rightarrow> Book \<Rightarrow> string" where
  \<open>marshal_Book q b =
     ''{"id":'' @ itoa (ID b) @ '',"title":'' @ q (Title b) @ '',"author":'' @ q (Author b)
       @ '',"isbn":'' @ q (ISBN b) @ ''}''\<close>

fun join :: "string list \<Rightarrow> string" where
  "join [] = []"
| "join [x] = x"
| "join (x # y # ys) = x @ '','' @ join (y # ys)"

fun marshal_Books :: "quoter \<Rightarrow> Book slice \<Rightarrow> string" where
  "marshal_Books q None = ''null''"
| "marshal_Books q (Some bs) = ''['' @ join (map (marshal_Book q) bs) @ '']''"

definition Encode :: "ResponseWriter \<Rightarrow> string \<Rightarrow> ResponseWriter" where
  "Encode w js = Write w (js @ [newline])"

text \<open>
  \<^verbatim>\<open>json.NewDecoder(r.Body).Decode(&book)\<close> takes the bytes of the body and the value
  \<open>book\<close> holds, and leaves the value it decoded into \<open>book\<close> (possibly only some of its
  fields) together with an error or \<^verbatim>\<open>nil\<close>. An error is its message.
\<close>

type_synonym decoder = "string \<Rightarrow> Book \<Rightarrow> Book \<times> string option"

subsection \<open>The database\<close>

text \<open>
  The table \<^verbatim>\<open>books\<close>: an integer key and three text columns, which may hold
  \<^verbatim>\<open>NULL\<close>. The five statements of the program, with their arguments:
\<close>

record book_row =
  col_id :: int
  col_title :: "string option"
  col_author :: "string option"
  col_isbn :: "string option"

datatype sql =
    SELECT_all                           \<comment> \<open>\<^verbatim>\<open>SELECT id, title, author, isbn FROM books\<close>\<close>
  | SELECT_by_id string                  \<comment> \<open>\<^verbatim>\<open>... FROM books WHERE id = $1\<close>\<close>
  | INSERT string string string          \<comment> \<open>\<^verbatim>\<open>INSERT INTO books (title, author, isbn) VALUES ($1, $2, $3)\<close>\<close>
  | UPDATE string string string string   \<comment> \<open>\<^verbatim>\<open>UPDATE books SET title = $1, author = $2, isbn = $3 WHERE id = $4\<close>\<close>
  | DELETE string                        \<comment> \<open>\<^verbatim>\<open>DELETE FROM books WHERE id = $1\<close>\<close>

text \<open>
  The state behind the handle \<^verbatim>\<open>db\<close>: the rows in the order a scan delivers them,
  the next value of the key's sequence, the error every statement fails with while the
  server cannot be reached (\<open>fault\<close>), the server's reading of a text argument compared
  with the integer key (\<open>id_in\<close>: the integer, or the error the statement fails with),
  and the statements submitted so far. A text argument is stored as it is given, and the
  key of a new row is taken from the sequence.
\<close>

record database =
  books_table :: "book_row list"
  next_id :: int
  fault :: "string option"
  id_in :: "string \<Rightarrow> string + int"
  submitted :: "sql list"

definition new_row :: "int \<Rightarrow> string \<Rightarrow> string \<Rightarrow> string \<Rightarrow> book_row" where
  "new_row k t a i = \<lparr>col_id = k, col_title = Some t, col_author = Some a, col_isbn = Some i\<rparr>"

definition set_row :: "string \<Rightarrow> string \<Rightarrow> string \<Rightarrow> book_row \<Rightarrow> book_row" where
  "set_row t a i row = row\<lparr>col_title := Some t, col_author := Some a, col_isbn := Some i\<rparr>"

text \<open>What a statement returns and what it does to the table.\<close>

fun effect :: "database \<Rightarrow> sql \<Rightarrow> (string + book_row list) \<times> database" where
  "effect d SELECT_all = (Inr (books_table d), d)"
| "effect d (SELECT_by_id p) =
     (case id_in d p of
        Inl e \<Rightarrow> (Inl e, d)
      | Inr k \<Rightarrow> (Inr (filter (\<lambda>row. col_id row = k) (books_table d)), d))"
| "effect d (INSERT t a i) =
     (Inr [], d\<lparr>books_table := books_table d @ [new_row (next_id d) t a i], next_id := next_id d + 1\<rparr>)"
| "effect d (UPDATE t a i p) =
     (case id_in d p of
        Inl e \<Rightarrow> (Inl e, d)
      | Inr k \<Rightarrow>
          (Inr [], d\<lparr>books_table := map (\<lambda>row. if col_id row = k then set_row t a i row else row)
                                 (books_table d)\<rparr>))"
| "effect d (DELETE p) =
     (case id_in d p of
        Inl e \<Rightarrow> (Inl e, d)
      | Inr k \<Rightarrow> (Inr [], d\<lparr>books_table := filter (\<lambda>row. col_id row \<noteq> k) (books_table d)\<rparr>))"

definition run :: "database \<Rightarrow> sql \<Rightarrow> (string + book_row list) \<times> database" where
  "run d s =
     (let d' = d\<lparr>submitted := submitted d @ [s]\<rparr>
      in case fault d of Some e \<Rightarrow> (Inl e, d') | None \<Rightarrow> effect d' s)"

text \<open>
  \<^verbatim>\<open>db.Exec\<close> gives a result the handlers discard, and an error; \<^verbatim>\<open>db.Query\<close> gives
  the rows or an error; \<^verbatim>\<open>db.QueryRow\<close> gives a row that holds the error until \<^verbatim>\<open>Scan\<close>.
\<close>

definition db_Exec :: "database \<Rightarrow> sql \<Rightarrow> string option \<times> database" where
  "db_Exec d s = (case run d s of (Inl e, d') \<Rightarrow> (Some e, d') | (Inr _, d') \<Rightarrow> (None, d'))"

definition db_Query :: "database \<Rightarrow> sql \<Rightarrow> (string + book_row list) \<times> database" where
  "db_Query d s = run d s"

definition db_QueryRow :: "database \<Rightarrow> sql \<Rightarrow> (string + book_row list) \<times> database" where
  "db_QueryRow d s = run d s"

text \<open>
  \<^verbatim>\<open>rows.Scan(&b.ID, &b.Title, &b.Author, &b.ISBN)\<close> fills the fields from left to right
  and fails at the first \<^verbatim>\<open>NULL\<close> that is to go into a \<^verbatim>\<open>string\<close>.
\<close>

definition scan_null :: "string \<Rightarrow> string \<Rightarrow> string" where
  \<open>scan_null i name =
     ''sql: Scan error on column index '' @ i @ '', name "'' @ name
       @ ''": converting NULL to string is unsupported''\<close>

definition Scan :: "book_row \<Rightarrow> string + Book" where
  "Scan row =
     (case col_title row of
        None \<Rightarrow> Inl (scan_null ''1'' ''title'')
      | Some t \<Rightarrow>
          (case col_author row of
             None \<Rightarrow> Inl (scan_null ''2'' ''author'')
           | Some a \<Rightarrow>
               (case col_isbn row of
                  None \<Rightarrow> Inl (scan_null ''3'' ''isbn'')
                | Some i \<Rightarrow> Inr \<lparr>ID = col_id row, Title = t, Author = a, ISBN = i\<rparr>)))"

text \<open>
  \<^verbatim>\<open>row.Scan\<close> of \<^verbatim>\<open>QueryRow\<close>: the error of the query, \<^verbatim>\<open>sql.ErrNoRows\<close> when the
  query gave no row, and otherwise the scan of the first row.
\<close>

definition ErrNoRows :: string where
  "ErrNoRows = ''sql: no rows in result set''"

fun Row_Scan :: "string + book_row list \<Rightarrow> string + Book" where
  "Row_Scan (Inl e) = Inl e"
| "Row_Scan (Inr []) = Inl ErrNoRows"
| "Row_Scan (Inr (row # _)) = Scan row"

section \<open>The handlers\<close>

record Request =
  URLParam_id :: string
  Body :: string

text \<open>
  \<^verbatim>\<open>getBooks\<close>, \<^verbatim>\<open>GET /books\<close>. The loop \<^verbatim>\<open>for rows.Next()\<close> scans each row into
  a \<^verbatim>\<open>Book\<close> and appends it to \<^verbatim>\<open>books\<close>, and leaves the handler at the first scan
  that fails.
\<close>

fun rows_loop :: "book_row list \<Rightarrow> Book slice \<Rightarrow> string + Book slice" where
  "rows_loop [] books = Inr books"
| "rows_loop (row # rows) books =
     (case Scan row of
        Inl err \<Rightarrow> Inl err
      | Inr b \<Rightarrow> rows_loop rows (append_slice books b))"

definition getBooks ::
  "quoter \<Rightarrow> ResponseWriter \<Rightarrow> Request \<Rightarrow> database \<Rightarrow> ResponseWriter \<times> database" where
  "getBooks q w r d =
     (case db_Query d SELECT_all of
        (Inl err, d') \<Rightarrow> (http_Error w err StatusInternalServerError, d')
      | (Inr rows, d') \<Rightarrow>
          (case rows_loop rows None of
             Inl err \<Rightarrow> (http_Error w err StatusInternalServerError, d')
           | Inr books \<Rightarrow>
               (Encode (Header_Set w ''Content-Type'' ''application/json'')
                  (marshal_Books q books), d')))"

text \<open>\<^verbatim>\<open>getBook\<close>, \<^verbatim>\<open>GET /books/{id}\<close>.\<close>

definition getBook ::
  "quoter \<Rightarrow> ResponseWriter \<Rightarrow> Request \<Rightarrow> database \<Rightarrow> ResponseWriter \<times> database" where
  "getBook q w r d =
     (case db_QueryRow d (SELECT_by_id (URLParam_id r)) of
        (row, d') \<Rightarrow>
          (case Row_Scan row of
             Inl err \<Rightarrow> (http_Error w err StatusInternalServerError, d')
           | Inr book \<Rightarrow>
               (Encode (Header_Set w ''Content-Type'' ''application/json'')
                  (marshal_Book q book), d')))"

text \<open>
  \<^verbatim>\<open>createBook\<close>, \<^verbatim>\<open>POST /books\<close>. The branch of the decode error has no
  \<^verbatim>\<open>return\<close>: the handler goes on to the statement with the writer the branch left.
\<close>

definition createBook ::
  "decoder \<Rightarrow> ResponseWriter \<Rightarrow> Request \<Rightarrow> database \<Rightarrow> ResponseWriter \<times> database" where
  "createBook dec w r d =
     (case dec (Body r) Book_zero of
        (book, err) \<Rightarrow>
          (let w1 = (case err of
                       Some e \<Rightarrow> http_Error w e StatusBadRequest
                     | None \<Rightarrow> w)
           in case db_Exec d (INSERT (Title book) (Author book) (ISBN book)) of
                (Some e, d') \<Rightarrow> (http_Error w1 e StatusInternalServerError, d')
              | (None, d') \<Rightarrow>
                  (Write (WriteHeader w1 StatusCreated) ''Book created successfully'', d')))"

text \<open>\<^verbatim>\<open>updateBook\<close>, \<^verbatim>\<open>PUT /books/{id}\<close>.\<close>

definition updateBook ::
  "decoder \<Rightarrow> quoter \<Rightarrow> ResponseWriter \<Rightarrow> Request \<Rightarrow> database
     \<Rightarrow> ResponseWriter \<times> database" where
  "updateBook dec q w r d =
     (case dec (Body r) Book_zero of
        (book, Some e) \<Rightarrow> (http_Error w e StatusBadRequest, d)
      | (book, None) \<Rightarrow>
          (case db_Exec d (UPDATE (Title book) (Author book) (ISBN book) (URLParam_id r)) of
             (Some e, d') \<Rightarrow> (http_Error w e StatusInternalServerError, d')
           | (None, d') \<Rightarrow>
               (Encode (Header_Set w ''Content-Type'' ''application/json'')
                  (marshal_Book q book), d')))"

text \<open>\<^verbatim>\<open>deleteBook\<close>, \<^verbatim>\<open>DELETE /books/{id}\<close>.\<close>

definition deleteBook ::
  "ResponseWriter \<Rightarrow> Request \<Rightarrow> database \<Rightarrow> ResponseWriter \<times> database" where
  "deleteBook w r d =
     (case db_Exec d (DELETE (URLParam_id r)) of
        (Some e, d') \<Rightarrow> (http_Error w e StatusInternalServerError, d')
      | (None, d') \<Rightarrow> (Write (WriteHeader w StatusOK) ''Book deleted successfully'', d'))"

section \<open>Instances for the examples\<close>

text \<open>
  The examples below run the handlers on concrete requests. They use the literal of a
  string that needs no escape, the reading of an unsigned decimal numeral as the key, and
  the outcome of the decoder on three bodies: a well-formed one, one whose \<^verbatim>\<open>id\<close> has the
  wrong type (the fields before it are decoded, and the error is reported) and one that
  ends early (nothing is decoded). On any other body the instance answers as the decoder
  does on an empty body; no example uses one.
\<close>

definition plain_quote :: quoter where
  "plain_quote s = CHR 0x22 # s @ [CHR 0x22]"

fun read_decimal :: "string \<Rightarrow> nat \<Rightarrow> nat option" where
  "read_decimal [] acc = Some acc"
| "read_decimal (c # cs) acc =
     (if 48 \<le> (of_char c :: nat) \<and> (of_char c :: nat) \<le> 57
      then read_decimal cs (10 * acc + (of_char c - 48))
      else None)"

definition decimal_in :: "string \<Rightarrow> string + int" where
  \<open>decimal_in p =
     (case (if p = [] then None else read_decimal p 0) of
        None \<Rightarrow> Inl (''pq: invalid input syntax for type integer: "'' @ p @ ''"'')
      | Some n \<Rightarrow> Inr (int n))\<close>

definition decode_example :: decoder where
  \<open>decode_example bs b =
     (if bs = ''{"title":"Dune2","author":"Herbert","isbn":"123"}''
      then (b\<lparr>Title := ''Dune2'', Author := ''Herbert'', ISBN := ''123''\<rparr>, None)
      else if bs = ''{"title":"Dune","id":"x"}''
      then (b\<lparr>Title := ''Dune''\<rparr>,
            Some ''json: cannot unmarshal string into Go struct field Book.id of type int'')
      else if bs = ''{"title":''
      then (b, Some ''unexpected EOF'')
      else (b, Some ''EOF''))\<close>

definition shelf :: database where
  "shelf =
     \<lparr>books_table = [new_row 7 ''Dune'' ''Herbert'' ''123''], next_id = 8, fault = None,
      id_in = decimal_in, submitted = []\<rparr>"

definition shelf_with_null :: database where
  "shelf_with_null =
     shelf\<lparr>books_table :=
       [new_row 7 ''Dune'' ''Herbert'' ''123'',
        \<lparr>col_id = 8, col_title = Some ''Emma'', col_author = None, col_isbn = Some ''456''\<rparr>,
        new_row 9 ''Ulysses'' ''Joyce'' ''789'']\<rparr>"

section \<open>Facts about the response writer\<close>

text \<open>
  What each operation does to the three fields a client sees: whether a status went out,
  which one, and the body.
\<close>

lemma WriteHeader_fields [simp]:
  "wroteHeader (WriteHeader w c)"
  "status (WriteHeader w c) = (if wroteHeader w then status w else c)"
  "body (WriteHeader w c) = body w"
  by (simp_all add: WriteHeader_def)

lemma Write_fields [simp]:
  "wroteHeader (Write w b)"
  "status (Write w b) = (if wroteHeader w then status w else StatusOK)"
  "body (Write w b) = body w @ b"
  by (simp_all add: Write_def Let_def)

lemma Header_Set_fields [simp]:
  "wroteHeader (Header_Set w k v) = wroteHeader w"
  "status (Header_Set w k v) = status w"
  "body (Header_Set w k v) = body w"
  by (simp_all add: Header_Set_def)

lemma Header_Del_fields [simp]:
  "wroteHeader (Header_Del w k) = wroteHeader w"
  "status (Header_Del w k) = status w"
  "body (Header_Del w k) = body w"
  by (simp_all add: Header_Del_def)

lemma http_Error_fields [simp]:
  "wroteHeader (http_Error w e c)"
  "status (http_Error w e c) = (if wroteHeader w then status w else c)"
  "body (http_Error w e c) = body w @ e @ [newline]"
  by (simp_all add: http_Error_def Fprintln_def Let_def)

lemma Encode_fields [simp]:
  "wroteHeader (Encode w js)"
  "status (Encode w js) = (if wroteHeader w then status w else StatusOK)"
  "body (Encode w js) = body w @ js @ [newline]"
  by (simp_all add: Encode_def)

lemma ResponseWriter_new_fields [simp]:
  "\<not> wroteHeader ResponseWriter_new"
  "body ResponseWriter_new = []"
  by (simp_all add: ResponseWriter_new_def)

lemma itoa_0: "itoa 0 = ''0''"
  by (simp add: itoa_def digits.simps)

section \<open>Facts about the database\<close>

lemma effect_submitted: "submitted (snd (effect d s)) = submitted d"
  by (cases s) (simp_all split: sum.splits)

lemma run_submitted: "submitted (snd (run d s)) = submitted d @ [s]"
  by (simp add: run_def Let_def effect_submitted split: option.splits)

lemma db_Exec_submitted: "submitted (snd (db_Exec d s)) = submitted d @ [s]"
proof -
  have "snd (db_Exec d s) = snd (run d s)"
    by (simp add: db_Exec_def split: prod.splits sum.splits)
  then show ?thesis by (simp add: run_submitted)
qed

lemma db_Exec_INSERT_ok:
  "fault d = None \<Longrightarrow>
   db_Exec d (INSERT t a i) =
     (None, d\<lparr>books_table := books_table d @ [new_row (next_id d) t a i],
             next_id := next_id d + 1, submitted := submitted d @ [INSERT t a i]\<rparr>)"
  by (simp add: db_Exec_def run_def Let_def)

lemma db_Exec_DELETE:
  "db_Exec d (DELETE p) =
     (case fault d of
        Some e \<Rightarrow> (Some e, d\<lparr>submitted := submitted d @ [DELETE p]\<rparr>)
      | None \<Rightarrow>
          (case id_in d p of
             Inl e \<Rightarrow> (Some e, d\<lparr>submitted := submitted d @ [DELETE p]\<rparr>)
           | Inr k \<Rightarrow>
               (None, d\<lparr>submitted := submitted d @ [DELETE p],
                       books_table := filter (\<lambda>row. col_id row \<noteq> k) (books_table d)\<rparr>)))"
  by (simp add: db_Exec_def run_def Let_def split: option.splits sum.splits)

lemma run_SELECT_by_id:
  "fst (run d (SELECT_by_id p)) =
     (case fault d of
        Some e \<Rightarrow> Inl e
      | None \<Rightarrow>
          (case id_in d p of
             Inl e \<Rightarrow> Inl e
           | Inr k \<Rightarrow> Inr (filter (\<lambda>row. col_id row = k) (books_table d))))"
  by (simp add: run_def Let_def split: option.splits sum.splits)

lemma effect_UPDATE_frame:
  assumes "effect d (UPDATE t a i p) = (res, d')"
  shows "map col_id (books_table d') = map col_id (books_table d)
       \<and> next_id d' = next_id d
       \<and> (\<forall>n < length (books_table d).
            id_in d p \<noteq> Inr (col_id (books_table d ! n)) \<longrightarrow>
            books_table d' ! n = books_table d ! n)"
proof (cases "id_in d p")
  case (Inl e)
  with assms show ?thesis by auto
next
  case (Inr k)
  with assms have d': "d' = d\<lparr>books_table :=
      map (\<lambda>row. if col_id row = k then set_row t a i row else row) (books_table d)\<rparr>"
    by auto
  have "map col_id (books_table d') = map col_id (books_table d)"
    unfolding d' by (simp add: set_row_def comp_def cong: map_cong)
  moreover have "next_id d' = next_id d" unfolding d' by simp
  moreover have "books_table d' ! n = books_table d ! n"
    if "n < length (books_table d)" "id_in d p \<noteq> Inr (col_id (books_table d ! n))" for n
    using that Inr unfolding d' by simp
  ultimately show ?thesis by blast
qed

lemma db_Exec_UPDATE_frame:
  assumes "db_Exec d (UPDATE t a i p) = (res, d')"
  shows "map col_id (books_table d') = map col_id (books_table d)
       \<and> next_id d' = next_id d
       \<and> (\<forall>n < length (books_table d).
            id_in d p \<noteq> Inr (col_id (books_table d ! n)) \<longrightarrow>
            books_table d' ! n = books_table d ! n)"
proof (cases "fault d")
  case (Some e)
  with assms show ?thesis by (auto simp add: db_Exec_def run_def Let_def)
next
  case None
  let ?d0 = "d\<lparr>submitted := submitted d @ [UPDATE t a i p]\<rparr>"
  obtain x where "effect ?d0 (UPDATE t a i p) = (x, d')"
    using assms None
    by (cases "effect ?d0 (UPDATE t a i p)")
       (auto simp add: db_Exec_def run_def Let_def split: sum.splits)
  from effect_UPDATE_frame [OF this] show ?thesis by simp
qed

section \<open>Facts about the scans\<close>

lemma Row_Scan_Inr:
  "Row_Scan (Inr rows) = Inr book \<Longrightarrow> \<exists>row. rows \<noteq> [] \<and> row = hd rows \<and> Scan row = Inr book"
  by (cases rows) simp_all

lemma rows_loop_fails:
  assumes "\<forall>x \<in> set pre. \<exists>b. Scan x = Inr b" and "Scan row = Inl e"
  shows "rows_loop (pre @ row # post) acc = Inl e"
  using assms
proof (induction pre arbitrary: acc)
  case Nil
  then show ?case by simp
next
  case (Cons x pre)
  then obtain b where "Scan x = Inr b" by auto
  with Cons show ?case by simp
qed

lemma rows_loop_all:
  assumes "\<forall>x \<in> set rows. Scan x = Inr (f x)"
  shows "rows_loop rows acc =
           Inr (if rows = [] then acc
                else Some ((case acc of None \<Rightarrow> [] | Some bs \<Rightarrow> bs) @ map f rows))"
  using assms
proof (induction rows arbitrary: acc)
  case Nil
  then show ?case by simp
next
  case (Cons x rows)
  then show ?case by (cases acc) simp_all
qed

lemma getBook_response:
  "fst (getBook q w r d) =
     (case Row_Scan (fst (run d (SELECT_by_id (URLParam_id r)))) of
        Inl err \<Rightarrow> http_Error w err StatusInternalServerError
      | Inr book \<Rightarrow>
          Encode (Header_Set w ''Content-Type'' ''application/json'') (marshal_Book q book))"
  by (simp add: getBook_def db_QueryRow_def split: prod.splits sum.splits)

section \<open>Create\<close>

text \<open>
  Claim C1. When decoding the body of \<^verbatim>\<open>POST /books\<close> fails with the error \<open>e\<close>, the
  handler answers status 400 and the text of \<open>e\<close> as the first line of the body, and it
  does not return: the \<^verbatim>\<open>INSERT\<close> is submitted with the title, author and ISBN of
  whatever \<^verbatim>\<open>Book\<close> the decoder left (the zero value when it decoded nothing), and
  where the server takes the statement the table gains that row.
\<close>

theorem createBook_continues_after_decode_error:
  assumes "dec (Body r) Book_zero = (book, Some e)"
  shows "status (fst (createBook dec ResponseWriter_new r d)) = StatusBadRequest
       \<and> (\<exists>rest. body (fst (createBook dec ResponseWriter_new r d)) = e @ [newline] @ rest)
       \<and> submitted (snd (createBook dec ResponseWriter_new r d))
           = submitted d @ [INSERT (Title book) (Author book) (ISBN book)]
       \<and> (fault d = None \<longrightarrow>
            books_table (snd (createBook dec ResponseWriter_new r d))
              = books_table d @ [new_row (next_id d) (Title book) (Author book) (ISBN book)])"
proof -
  let ?s = "INSERT (Title book) (Author book) (ISBN book)"
  obtain x d' where ex: "db_Exec d ?s = (x, d')" by (cases "db_Exec d ?s")
  have sub: "submitted d' = submitted d @ [?s]"
    using db_Exec_submitted [of d ?s] ex by simp
  have tab: "fault d = None \<Longrightarrow> books_table d' = books_table d @ [new_row (next_id d) (Title book) (Author book) (ISBN book)]"
    using ex by (auto simp add: db_Exec_INSERT_ok)
  show ?thesis
    using assms ex sub tab by (cases x) (simp_all add: createBook_def)
qed

theorem createBook_continues_after_decode_error_witness:
  \<open>decode_example ''{"title":"Dune","id":"x"}'' Book_zero
       = (Book_zero\<lparr>Title := ''Dune''\<rparr>,
          Some ''json: cannot unmarshal string into Go struct field Book.id of type int'')
   \<and> status (fst (createBook decode_example ResponseWriter_new
         \<lparr>URLParam_id = [], Body = ''{"title":"Dune","id":"x"}''\<rparr> shelf)) = StatusBadRequest
   \<and> submitted (snd (createBook decode_example ResponseWriter_new
         \<lparr>URLParam_id = [], Body = ''{"title":"Dune","id":"x"}''\<rparr> shelf))
       = [INSERT ''Dune'' [] []]
   \<and> fault shelf = None
   \<and> books_table (snd (createBook decode_example ResponseWriter_new
         \<lparr>URLParam_id = [], Body = ''{"title":"Dune","id":"x"}''\<rparr> shelf))
       = [new_row 7 ''Dune'' ''Herbert'' ''123'', new_row 8 ''Dune'' [] []]\<close>
proof -
  let ?r = \<open>\<lparr>URLParam_id = [], Body = ''{"title":"Dune","id":"x"}''\<rparr>\<close>
  have h: \<open>decode_example (Body ?r) Book_zero
       = (Book_zero\<lparr>Title := ''Dune''\<rparr>,
          Some ''json: cannot unmarshal string into Go struct field Book.id of type int'')\<close>
    by (simp add: decode_example_def)
  have f: "fault shelf = None" by (simp add: shelf_def)
  from createBook_continues_after_decode_error [where dec = decode_example and r = ?r and d = shelf, OF h] f h
  show ?thesis by (simp add: shelf_def Book_zero_def)
qed

text \<open>
  Claim C9. When the body of \<^verbatim>\<open>POST /books\<close> is malformed and the \<^verbatim>\<open>INSERT\<close> of the
  partly decoded \<^verbatim>\<open>Book\<close> succeeds, the status is 400, the first one written (the
  later \<^verbatim>\<open>WriteHeader(201)\<close> is ignored), and the body is the line of the decode error
  followed by \<^verbatim>\<open>Book created successfully\<close>.
\<close>

theorem createBook_malformed_body_inserted:
  assumes "dec (Body r) Book_zero = (book, Some e)"
      and "fst (db_Exec d (INSERT (Title book) (Author book) (ISBN book))) = None"
  shows "status (fst (createBook dec ResponseWriter_new r d)) = StatusBadRequest
       \<and> body (fst (createBook dec ResponseWriter_new r d))
           = e @ [newline] @ ''Book created successfully''"
proof -
  obtain d' where "db_Exec d (INSERT (Title book) (Author book) (ISBN book)) = (None, d')"
    using assms(2) by (cases "db_Exec d (INSERT (Title book) (Author book) (ISBN book))") simp
  with assms(1) show ?thesis by (simp add: createBook_def)
qed

theorem createBook_malformed_body_inserted_witness:
  \<open>decode_example ''{"title":'' Book_zero = (Book_zero, Some ''unexpected EOF'')
   \<and> fst (db_Exec shelf (INSERT [] [] [])) = None
   \<and> status (fst (createBook decode_example ResponseWriter_new
         \<lparr>URLParam_id = [], Body = ''{"title":''\<rparr> shelf)) = StatusBadRequest
   \<and> body (fst (createBook decode_example ResponseWriter_new
         \<lparr>URLParam_id = [], Body = ''{"title":''\<rparr> shelf))
       = ''unexpected EOF'' @ [newline] @ ''Book created successfully''\<close>
proof -
  let ?r = \<open>\<lparr>URLParam_id = [], Body = ''{"title":''\<rparr>\<close>
  have h: \<open>decode_example (Body ?r) Book_zero = (Book_zero, Some ''unexpected EOF'')\<close>
    by (simp add: decode_example_def)
  have x: "fst (db_Exec shelf (INSERT (Title Book_zero) (Author Book_zero) (ISBN Book_zero))) = None"
    by (simp add: db_Exec_def run_def Let_def shelf_def)
  from createBook_malformed_body_inserted [where dec = decode_example and r = ?r and d = shelf, OF h x] h x
  show ?thesis by (simp add: Book_zero_def)
qed

section \<open>Update\<close>

text \<open>
  Claim C6. When decoding the body of \<^verbatim>\<open>PUT /books/{id}\<close> fails with the error \<open>e\<close>,
  the handler answers status 400 with the line of \<open>e\<close> and returns at once: the database
  it leaves is the one it found, with no statement submitted and no row changed.
\<close>

theorem updateBook_stops_at_decode_error:
  assumes "dec (Body r) Book_zero = (book, Some e)"
  shows "status (fst (updateBook dec q ResponseWriter_new r d)) = StatusBadRequest
       \<and> body (fst (updateBook dec q ResponseWriter_new r d)) = e @ [newline]
       \<and> snd (updateBook dec q ResponseWriter_new r d) = d"
  using assms by (simp add: updateBook_def)

theorem updateBook_stops_at_decode_error_witness:
  \<open>decode_example ''{"title":'' Book_zero = (Book_zero, Some ''unexpected EOF'')
   \<and> status (fst (updateBook decode_example plain_quote ResponseWriter_new
         \<lparr>URLParam_id = ''7'', Body = ''{"title":''\<rparr> shelf)) = StatusBadRequest
   \<and> body (fst (updateBook decode_example plain_quote ResponseWriter_new
         \<lparr>URLParam_id = ''7'', Body = ''{"title":''\<rparr> shelf)) = ''unexpected EOF'' @ [newline]
   \<and> snd (updateBook decode_example plain_quote ResponseWriter_new
         \<lparr>URLParam_id = ''7'', Body = ''{"title":''\<rparr> shelf) = shelf\<close>
proof -
  let ?r = \<open>\<lparr>URLParam_id = ''7'', Body = ''{"title":''\<rparr>\<close>
  have h: \<open>decode_example (Body ?r) Book_zero = (Book_zero, Some ''unexpected EOF'')\<close>
    by (simp add: decode_example_def)
  from updateBook_stops_at_decode_error
    [where dec = decode_example and r = ?r and q = plain_quote and d = shelf, OF h] h
  show ?thesis by simp
qed

text \<open>
  Claim C4. For every path id and every body that decodes to a \<^verbatim>\<open>Book\<close> \<open>book\<close>, when
  the \<^verbatim>\<open>UPDATE\<close> succeeds the answer to \<^verbatim>\<open>PUT /books/{id}\<close> is status 200 and the
  JSON encoding of \<open>book\<close>, the decoded input and not a row read back from the table,
  whether or not a row of the table has that id.
\<close>

theorem updateBook_echoes_decoded_book:
  assumes "dec (Body r) Book_zero = (book, None)"
      and "fst (db_Exec d (UPDATE (Title book) (Author book) (ISBN book) (URLParam_id r))) = None"
  shows "status (fst (updateBook dec q ResponseWriter_new r d)) = StatusOK
       \<and> body (fst (updateBook dec q ResponseWriter_new r d)) = marshal_Book q book @ [newline]"
proof -
  let ?s = "UPDATE (Title book) (Author book) (ISBN book) (URLParam_id r)"
  obtain d' where "db_Exec d ?s = (None, d')"
    using assms(2) by (cases "db_Exec d ?s") simp
  with assms(1) show ?thesis by (simp add: updateBook_def)
qed

theorem updateBook_echoes_decoded_book_witness:
  \<open>decode_example ''{"title":"Dune2","author":"Herbert","isbn":"123"}'' Book_zero
       = (\<lparr>ID = 0, Title = ''Dune2'', Author = ''Herbert'', ISBN = ''123''\<rparr>, None)
   \<and> fst (db_Exec shelf (UPDATE ''Dune2'' ''Herbert'' ''123'' ''8'')) = None
   \<and> books_table (snd (db_Exec shelf (UPDATE ''Dune2'' ''Herbert'' ''123'' ''8'')))
       = books_table shelf
   \<and> status (fst (updateBook decode_example plain_quote ResponseWriter_new
         \<lparr>URLParam_id = ''8'', Body = ''{"title":"Dune2","author":"Herbert","isbn":"123"}''\<rparr>
         shelf)) = StatusOK
   \<and> body (fst (updateBook decode_example plain_quote ResponseWriter_new
         \<lparr>URLParam_id = ''8'', Body = ''{"title":"Dune2","author":"Herbert","isbn":"123"}''\<rparr>
         shelf))
       = ''{"id":0,"title":"Dune2","author":"Herbert","isbn":"123"}'' @ [newline]\<close>
proof -
  let ?r = \<open>\<lparr>URLParam_id = ''8'',
             Body = ''{"title":"Dune2","author":"Herbert","isbn":"123"}''\<rparr>\<close>
  let ?b = "\<lparr>ID = 0, Title = ''Dune2'', Author = ''Herbert'', ISBN = ''123''\<rparr>"
  have h: "decode_example (Body ?r) Book_zero = (?b, None)"
    by (simp add: decode_example_def Book_zero_def)
  have x: "fst (db_Exec shelf (UPDATE (Title ?b) (Author ?b) (ISBN ?b) (URLParam_id ?r))) = None"
    by (simp add: db_Exec_def run_def Let_def shelf_def decimal_in_def)
  have t: "books_table (snd (db_Exec shelf (UPDATE ''Dune2'' ''Herbert'' ''123'' ''8'')))
       = books_table shelf"
    by (simp add: db_Exec_def run_def Let_def shelf_def decimal_in_def new_row_def)
  from updateBook_echoes_decoded_book
    [where dec = decode_example and r = ?r and q = plain_quote and d = shelf, OF h x] h x t
  show ?thesis
    by (simp add: marshal_Book_def plain_quote_def itoa_0)
qed

text \<open>
  Claim C8. In the object that a successful \<^verbatim>\<open>PUT /books/{id}\<close> echoes, the member
  \<^verbatim>\<open>id\<close> is the id the decoder left in \<open>book\<close>: it is 0 when the decoder did not
  assign the field, which then still holds the zero value of \<^verbatim>\<open>var book Book\<close>; and it
  is not taken from the path, for the response is the same for every path id with which
  the \<^verbatim>\<open>UPDATE\<close> succeeds. So it can differ from the id of the row that was updated.
\<close>

theorem updateBook_echoes_decoded_id:
  assumes "dec (Body r) Book_zero = (book, None)"
      and "fst (db_Exec d (UPDATE (Title book) (Author book) (ISBN book) (URLParam_id r))) = None"
  shows \<open>body (fst (updateBook dec q ResponseWriter_new r d))
           = ''{"id":'' @ itoa (ID book) @ '',"title":'' @ q (Title book)
               @ '',"author":'' @ q (Author book) @ '',"isbn":'' @ q (ISBN book) @ ''}''
               @ [newline]
       \<and> (ID book = ID Book_zero \<longrightarrow>
            body (fst (updateBook dec q ResponseWriter_new r d))
              = ''{"id":0,"title":'' @ q (Title book)
                  @ '',"author":'' @ q (Author book) @ '',"isbn":'' @ q (ISBN book) @ ''}''
                  @ [newline])
       \<and> (\<forall>p. fst (db_Exec d (UPDATE (Title book) (Author book) (ISBN book) p)) = None \<longrightarrow>
              fst (updateBook dec q ResponseWriter_new (r\<lparr>URLParam_id := p\<rparr>) d)
                = fst (updateBook dec q ResponseWriter_new r d))\<close>
proof -
  have resp: "fst (updateBook dec q ResponseWriter_new (r\<lparr>URLParam_id := p\<rparr>) d)
                = Encode (Header_Set ResponseWriter_new ''Content-Type'' ''application/json'')
                    (marshal_Book q book)"
    if ok: "fst (db_Exec d (UPDATE (Title book) (Author book) (ISBN book) p)) = None" for p
  proof -
    obtain d' where "db_Exec d (UPDATE (Title book) (Author book) (ISBN book) p) = (None, d')"
      using ok by (cases "db_Exec d (UPDATE (Title book) (Author book) (ISBN book) p)") simp
    with assms(1) show ?thesis by (simp add: updateBook_def)
  qed
  from resp [of "URLParam_id r"] assms(2)
  have here: "fst (updateBook dec q ResponseWriter_new r d)
                = Encode (Header_Set ResponseWriter_new ''Content-Type'' ''application/json'')
                    (marshal_Book q book)"
    by simp
  have zero: "ID book = ID Book_zero \<Longrightarrow> itoa (ID book) = ''0''"
    by (simp add: Book_zero_def itoa_0)
  show ?thesis
    using here resp zero by (auto simp add: marshal_Book_def)
qed

theorem updateBook_echoes_decoded_id_witness:
  \<open>decode_example ''{"title":"Dune2","author":"Herbert","isbn":"123"}'' Book_zero
       = (\<lparr>ID = 0, Title = ''Dune2'', Author = ''Herbert'', ISBN = ''123''\<rparr>, None)
   \<and> fst (db_Exec shelf (UPDATE ''Dune2'' ''Herbert'' ''123'' ''7'')) = None
   \<and> fst (db_Exec shelf (UPDATE ''Dune2'' ''Herbert'' ''123'' ''8'')) = None
   \<and> map col_id (books_table (snd (updateBook decode_example plain_quote ResponseWriter_new
         \<lparr>URLParam_id = ''7'', Body = ''{"title":"Dune2","author":"Herbert","isbn":"123"}''\<rparr>
         shelf))) = [7]
   \<and> body (fst (updateBook decode_example plain_quote ResponseWriter_new
         \<lparr>URLParam_id = ''7'', Body = ''{"title":"Dune2","author":"Herbert","isbn":"123"}''\<rparr>
         shelf))
       = ''{"id":0,"title":"Dune2","author":"Herbert","isbn":"123"}'' @ [newline]
   \<and> fst (updateBook decode_example plain_quote ResponseWriter_new
         \<lparr>URLParam_id = ''8'', Body = ''{"title":"Dune2","author":"Herbert","isbn":"123"}''\<rparr>
         shelf)
       = fst (updateBook decode_example plain_quote ResponseWriter_new
         \<lparr>URLParam_id = ''7'', Body = ''{"title":"Dune2","author":"Herbert","isbn":"123"}''\<rparr>
         shelf)\<close>
proof -
  let ?r = \<open>\<lparr>URLParam_id = ''7'',
             Body = ''{"title":"Dune2","author":"Herbert","isbn":"123"}''\<rparr>\<close>
  let ?b = "\<lparr>ID = 0, Title = ''Dune2'', Author = ''Herbert'', ISBN = ''123''\<rparr>"
  have h: "decode_example (Body ?r) Book_zero = (?b, None)"
    by (simp add: decode_example_def Book_zero_def)
  have x: "fst (db_Exec shelf (UPDATE (Title ?b) (Author ?b) (ISBN ?b) (URLParam_id ?r))) = None"
    by (simp add: db_Exec_def run_def Let_def shelf_def decimal_in_def)
  have y: "fst (db_Exec shelf (UPDATE (Title ?b) (Author ?b) (ISBN ?b) ''8'')) = None"
    by (simp add: db_Exec_def run_def Let_def shelf_def decimal_in_def)
  have z: "ID ?b = ID Book_zero" by (simp add: Book_zero_def)
  have k: "map col_id (books_table (snd (updateBook decode_example plain_quote
             ResponseWriter_new ?r shelf))) = [7]"
    using h
    by (simp add: updateBook_def db_Exec_def run_def Let_def shelf_def decimal_in_def
          new_row_def set_row_def)
  note claim = updateBook_echoes_decoded_id
    [where dec = decode_example and r = ?r and q = plain_quote and d = shelf, OF h x]
  note zero = claim [THEN conjunct2, THEN conjunct1, rule_format, OF z]
  note path = claim [THEN conjunct2, THEN conjunct2, rule_format, of "''8''", OF y]
  from zero path h x y k show ?thesis
    by (simp add: plain_quote_def)
qed

text \<open>
  Claim C7. \<^verbatim>\<open>PUT /books/{id}\<close> leaves the id of every row as it was, row by row, and
  leaves every row unchanged whose id is not the one the path parameter denotes; so what
  it changes is the title, author and ISBN of the rows with that id, and nothing else.
\<close>

theorem updateBook_frame:
  assumes "updateBook dec q w r d = (w', d')"
  shows "map col_id (books_table d') = map col_id (books_table d)
       \<and> length (books_table d') = length (books_table d)
       \<and> (\<forall>n < length (books_table d).
            id_in d (URLParam_id r) \<noteq> Inr (col_id (books_table d ! n)) \<longrightarrow>
            books_table d' ! n = books_table d ! n)"
proof -
  obtain book err where dec: "dec (Body r) Book_zero = (book, err)"
    by (cases "dec (Body r) Book_zero")
  show ?thesis
  proof (cases err)
    case (Some e)
    with dec assms have "d' = d" by (simp add: updateBook_def)
    then show ?thesis by simp
  next
    case None
    let ?s = "UPDATE (Title book) (Author book) (ISBN book) (URLParam_id r)"
    obtain x d1 where ex: "db_Exec d ?s = (x, d1)" by (cases "db_Exec d ?s")
    with dec None assms have "d' = d1"
      by (cases x) (simp_all add: updateBook_def)
    with db_Exec_UPDATE_frame [OF ex] have
      frame: "map col_id (books_table d') = map col_id (books_table d)"
        "\<forall>n < length (books_table d).
            id_in d (URLParam_id r) \<noteq> Inr (col_id (books_table d ! n)) \<longrightarrow>
            books_table d' ! n = books_table d ! n"
      by simp_all
    from frame(1) have "length (books_table d') = length (books_table d)"
      by (rule map_eq_imp_length_eq)
    with frame show ?thesis by blast
  qed
qed

theorem updateBook_frame_witness:
  \<open>map col_id (books_table (snd (updateBook decode_example plain_quote ResponseWriter_new
         \<lparr>URLParam_id = ''8'', Body = ''{"title":"Dune2","author":"Herbert","isbn":"123"}''\<rparr>
         shelf_with_null))) = [7, 8, 9]
   \<and> (0::nat) < length (books_table shelf_with_null)
   \<and> id_in shelf_with_null ''8'' \<noteq> Inr (col_id (books_table shelf_with_null ! 0))
   \<and> books_table (snd (updateBook decode_example plain_quote ResponseWriter_new
         \<lparr>URLParam_id = ''8'', Body = ''{"title":"Dune2","author":"Herbert","isbn":"123"}''\<rparr>
         shelf_with_null)) ! 0 = new_row 7 ''Dune'' ''Herbert'' ''123''
   \<and> books_table (snd (updateBook decode_example plain_quote ResponseWriter_new
         \<lparr>URLParam_id = ''8'', Body = ''{"title":"Dune2","author":"Herbert","isbn":"123"}''\<rparr>
         shelf_with_null)) ! 1 = new_row 8 ''Dune2'' ''Herbert'' ''123''\<close>
proof -
  let ?r = \<open>\<lparr>URLParam_id = ''8'',
             Body = ''{"title":"Dune2","author":"Herbert","isbn":"123"}''\<rparr>\<close>
  let ?res = "updateBook decode_example plain_quote ResponseWriter_new ?r shelf_with_null"
  have p: "?res = (fst ?res, snd ?res)" by simp
  have l: "(0::nat) < length (books_table shelf_with_null)"
    by (simp add: shelf_with_null_def shelf_def)
  have i: "id_in shelf_with_null (URLParam_id ?r)
             \<noteq> Inr (col_id (books_table shelf_with_null ! 0))"
    by (simp add: shelf_with_null_def shelf_def decimal_in_def new_row_def)
  have c: "map col_id (books_table shelf_with_null) = [7, 8, 9]"
          "books_table shelf_with_null ! 0 = new_row 7 ''Dune'' ''Herbert'' ''123''"
    by (simp_all add: shelf_with_null_def shelf_def new_row_def)
  have u: "books_table (snd ?res) ! 1 = new_row 8 ''Dune2'' ''Herbert'' ''123''"
    by (simp add: updateBook_def decode_example_def db_Exec_def run_def Let_def
          shelf_with_null_def shelf_def decimal_in_def new_row_def set_row_def Book_zero_def)
  from updateBook_frame [OF p] l i c u
  show ?thesis by simp
qed

section \<open>Get by id\<close>

text \<open>
  Claim C3. For every id that matches no row, \<^verbatim>\<open>GET /books/{id}\<close> answers status 500
  with the raw text of an error: the error of the query when the query fails, and
  \<^verbatim>\<open>sql.ErrNoRows\<close> when the query succeeds and finds nothing, both through the same
  branch. Status 200 is answered only when a row of the table has the id, and then the
  body is that \<^verbatim>\<open>Book\<close> as a JSON object.
\<close>

theorem getBook_no_row_is_server_error:
  "((\<forall>row \<in> set (books_table d). id_in d (URLParam_id r) \<noteq> Inr (col_id row)) \<longrightarrow>
      status (fst (getBook q ResponseWriter_new r d)) = StatusInternalServerError
      \<and> body (fst (getBook q ResponseWriter_new r d))
          = (case fault d of
               Some e \<Rightarrow> e
             | None \<Rightarrow> (case id_in d (URLParam_id r) of Inl e \<Rightarrow> e | Inr k \<Rightarrow> ErrNoRows))
            @ [newline])
   \<and> (status (fst (getBook q ResponseWriter_new r d)) = StatusOK \<longrightarrow>
        (\<exists>row \<in> set (books_table d). \<exists>book.
            id_in d (URLParam_id r) = Inr (col_id row) \<and> Scan row = Inr book
            \<and> body (fst (getBook q ResponseWriter_new r d)) = marshal_Book q book @ [newline]))"
proof (intro conjI impI)
  assume none: "\<forall>row \<in> set (books_table d). id_in d (URLParam_id r) \<noteq> Inr (col_id row)"
  have empty: "filter (\<lambda>row. col_id row = k) (books_table d) = []"
    if "id_in d (URLParam_id r) = Inr k" for k
    using none that by (auto simp add: filter_empty_conv)
  show "status (fst (getBook q ResponseWriter_new r d)) = StatusInternalServerError"
    using empty
    by (simp add: getBook_response run_SELECT_by_id split: option.splits sum.splits)
  show "body (fst (getBook q ResponseWriter_new r d))
          = (case fault d of
               Some e \<Rightarrow> e
             | None \<Rightarrow> (case id_in d (URLParam_id r) of Inl e \<Rightarrow> e | Inr k \<Rightarrow> ErrNoRows))
            @ [newline]"
    using empty
    by (simp add: getBook_response run_SELECT_by_id split: option.splits sum.splits)
next
  assume ok: "status (fst (getBook q ResponseWriter_new r d)) = StatusOK"
  let ?res = "fst (run d (SELECT_by_id (URLParam_id r)))"
  from ok obtain book where scan: "Row_Scan ?res = Inr book"
    by (cases "Row_Scan ?res") (simp_all add: getBook_response)
  then obtain rows where rows: "?res = Inr rows"
    by (cases ?res) simp_all
  with scan obtain row where row: "rows \<noteq> []" "row = hd rows" "Scan row = Inr book"
    using Row_Scan_Inr by metis
  from rows obtain k where k: "id_in d (URLParam_id r) = Inr k"
    "rows = filter (\<lambda>row. col_id row = k) (books_table d)"
    by (auto simp add: run_SELECT_by_id split: option.splits sum.splits)
  from row(1,2) have "row \<in> set rows" by simp
  with k have "row \<in> set (books_table d)" "col_id row = k" by simp_all
  moreover have "body (fst (getBook q ResponseWriter_new r d)) = marshal_Book q book @ [newline]"
    using scan by (simp add: getBook_response)
  ultimately show "\<exists>row \<in> set (books_table d). \<exists>book.
            id_in d (URLParam_id r) = Inr (col_id row) \<and> Scan row = Inr book
            \<and> body (fst (getBook q ResponseWriter_new r d)) = marshal_Book q book @ [newline]"
    using k(1) row(3) by blast
qed

theorem getBook_no_row_is_server_error_witness:
  \<open>map col_id (books_table shelf) = [7]
   \<and> fault shelf = None
   \<and> id_in shelf ''8'' = Inr 8
   \<and> status (fst (getBook plain_quote ResponseWriter_new \<lparr>URLParam_id = ''8'', Body = []\<rparr> shelf))
       = StatusInternalServerError
   \<and> body (fst (getBook plain_quote ResponseWriter_new \<lparr>URLParam_id = ''8'', Body = []\<rparr> shelf))
       = ''sql: no rows in result set'' @ [newline]
   \<and> id_in shelf ''x'' = Inl ''pq: invalid input syntax for type integer: "x"''
   \<and> status (fst (getBook plain_quote ResponseWriter_new \<lparr>URLParam_id = ''x'', Body = []\<rparr> shelf))
       = StatusInternalServerError
   \<and> body (fst (getBook plain_quote ResponseWriter_new \<lparr>URLParam_id = ''x'', Body = []\<rparr> shelf))
       = ''pq: invalid input syntax for type integer: "x"'' @ [newline]
   \<and> id_in shelf ''7'' = Inr 7
   \<and> status (fst (getBook plain_quote ResponseWriter_new \<lparr>URLParam_id = ''7'', Body = []\<rparr> shelf))
       = StatusOK
   \<and> body (fst (getBook plain_quote ResponseWriter_new \<lparr>URLParam_id = ''7'', Body = []\<rparr> shelf))
       = ''{"id":7,"title":"Dune","author":"Herbert","isbn":"123"}'' @ [newline]\<close>
proof -
  let ?r8 = "\<lparr>URLParam_id = ''8'', Body = []\<rparr>"
  let ?rx = "\<lparr>URLParam_id = ''x'', Body = []\<rparr>"
  let ?r7 = "\<lparr>URLParam_id = ''7'', Body = []\<rparr>"
  have t: "books_table shelf = [new_row 7 ''Dune'' ''Herbert'' ''123'']"
    by (simp add: shelf_def)
  have f: "fault shelf = None" "id_in shelf ''8'' = Inr 8" "id_in shelf ''7'' = Inr 7"
    \<open>id_in shelf ''x'' = Inl ''pq: invalid input syntax for type integer: "x"''\<close>
    by (simp_all add: shelf_def decimal_in_def)
  have n8: "\<forall>row \<in> set (books_table shelf). id_in shelf (URLParam_id ?r8) \<noteq> Inr (col_id row)"
    by (simp add: t f new_row_def)
  have nx: "\<forall>row \<in> set (books_table shelf). id_in shelf (URLParam_id ?rx) \<noteq> Inr (col_id row)"
    by (simp add: t f)
  have ok: "status (fst (getBook plain_quote ResponseWriter_new ?r7 shelf)) = StatusOK"
    by (simp add: getBook_response run_SELECT_by_id t f new_row_def Scan_def)
  have s7: "Scan (new_row 7 ''Dune'' ''Herbert'' ''123'')
              = Inr \<lparr>ID = 7, Title = ''Dune'', Author = ''Herbert'', ISBN = ''123''\<rparr>"
    by (simp add: Scan_def new_row_def)
  have i7: "itoa 7 = ''7''"
    by (simp add: itoa_def digits.simps)
  from getBook_no_row_is_server_error [of shelf ?r7 plain_quote, THEN conjunct2, THEN mp, OF ok]
  have b7: "body (fst (getBook plain_quote ResponseWriter_new ?r7 shelf))
              = marshal_Book plain_quote
                  \<lparr>ID = 7, Title = ''Dune'', Author = ''Herbert'', ISBN = ''123''\<rparr> @ [newline]"
    by (auto simp add: t s7)
  from getBook_no_row_is_server_error [of shelf ?r8 plain_quote, THEN conjunct1, THEN mp, OF n8]
       getBook_no_row_is_server_error [of shelf ?rx plain_quote, THEN conjunct1, THEN mp, OF nx]
       b7 ok f t i7
  show ?thesis
    by (simp add: ErrNoRows_def new_row_def marshal_Book_def plain_quote_def)
qed

section \<open>Delete\<close>

text \<open>
  Claim C5. For every id, when the \<^verbatim>\<open>DELETE\<close> succeeds \<^verbatim>\<open>DELETE /books/{id}\<close>
  answers status 200 and the text \<^verbatim>\<open>Book deleted successfully\<close>, whether or not a row
  was removed; repeating the request on the database the first one left gives the same
  response and removes nothing more.
\<close>

theorem deleteBook_success_whatever_matched:
  assumes "fst (db_Exec d (DELETE (URLParam_id r))) = None"
  shows "status (fst (deleteBook ResponseWriter_new r d)) = StatusOK
       \<and> body (fst (deleteBook ResponseWriter_new r d)) = ''Book deleted successfully''
       \<and> fst (deleteBook ResponseWriter_new r (snd (deleteBook ResponseWriter_new r d)))
           = fst (deleteBook ResponseWriter_new r d)
       \<and> books_table (snd (deleteBook ResponseWriter_new r (snd (deleteBook ResponseWriter_new r d))))
           = books_table (snd (deleteBook ResponseWriter_new r d))"
proof -
  let ?p = "URLParam_id r"
  from assms obtain k where ok: "fault d = None" "id_in d ?p = Inr k"
    by (auto simp add: db_Exec_DELETE split: option.splits sum.splits)
  let ?d1 = "d\<lparr>submitted := submitted d @ [DELETE ?p],
               books_table := filter (\<lambda>row. col_id row \<noteq> k) (books_table d)\<rparr>"
  have first: "deleteBook ResponseWriter_new r d
                 = (Write (WriteHeader ResponseWriter_new StatusOK) ''Book deleted successfully'', ?d1)"
    using ok by (simp add: deleteBook_def db_Exec_DELETE)
  have again: "fst (deleteBook ResponseWriter_new r ?d1)
                 = Write (WriteHeader ResponseWriter_new StatusOK) ''Book deleted successfully''"
       "books_table (snd (deleteBook ResponseWriter_new r ?d1)) = books_table ?d1"
    using ok by (simp_all add: deleteBook_def db_Exec_DELETE)
  show ?thesis
    using again by (simp add: first)
qed

theorem deleteBook_success_whatever_matched_witness:
  "fst (db_Exec shelf (DELETE ''7'')) = None
   \<and> books_table (snd (deleteBook ResponseWriter_new \<lparr>URLParam_id = ''7'', Body = []\<rparr> shelf)) = []
   \<and> status (fst (deleteBook ResponseWriter_new \<lparr>URLParam_id = ''7'', Body = []\<rparr> shelf)) = StatusOK
   \<and> body (fst (deleteBook ResponseWriter_new \<lparr>URLParam_id = ''7'', Body = []\<rparr> shelf))
       = ''Book deleted successfully''
   \<and> fst (deleteBook ResponseWriter_new \<lparr>URLParam_id = ''7'', Body = []\<rparr>
            (snd (deleteBook ResponseWriter_new \<lparr>URLParam_id = ''7'', Body = []\<rparr> shelf)))
       = fst (deleteBook ResponseWriter_new \<lparr>URLParam_id = ''7'', Body = []\<rparr> shelf)
   \<and> books_table (snd (deleteBook ResponseWriter_new \<lparr>URLParam_id = ''7'', Body = []\<rparr>
            (snd (deleteBook ResponseWriter_new \<lparr>URLParam_id = ''7'', Body = []\<rparr> shelf))))
       = []"
proof -
  let ?r = "\<lparr>URLParam_id = ''7'', Body = []\<rparr>"
  have x: "fst (db_Exec shelf (DELETE (URLParam_id ?r))) = None"
    by (simp add: db_Exec_DELETE shelf_def decimal_in_def)
  have t: "books_table (snd (deleteBook ResponseWriter_new ?r shelf)) = []"
    by (simp add: deleteBook_def db_Exec_DELETE shelf_def decimal_in_def new_row_def)
  from deleteBook_success_whatever_matched [of shelf ?r, OF x] x t
  show ?thesis by simp
qed

section \<open>List\<close>

text \<open>
  Claim C10. When the query of \<^verbatim>\<open>GET /books\<close> delivers rows of which some scan and the
  next one fails with the error \<open>e\<close>, the response is status 500 and the line of \<open>e\<close>
  alone: nothing of the rows scanned before is in the body.
\<close>

theorem getBooks_scan_error_only:
  assumes "fst (db_Query d SELECT_all) = Inr (pre @ row # post)"
      and "\<forall>x \<in> set pre. \<exists>b. Scan x = Inr b"
      and "Scan row = Inl e"
  shows "status (fst (getBooks q ResponseWriter_new r d)) = StatusInternalServerError
       \<and> body (fst (getBooks q ResponseWriter_new r d)) = e @ [newline]"
proof -
  obtain d' where "db_Query d SELECT_all = (Inr (pre @ row # post), d')"
    using assms(1) by (cases "db_Query d SELECT_all") simp
  moreover have "rows_loop (pre @ row # post) None = Inl e"
    using assms(2,3) by (rule rows_loop_fails)
  ultimately show ?thesis by (simp add: getBooks_def)
qed

theorem getBooks_scan_error_only_witness:
  \<open>fst (db_Query shelf_with_null SELECT_all)
       = Inr ([new_row 7 ''Dune'' ''Herbert'' ''123'']
              @ \<lparr>col_id = 8, col_title = Some ''Emma'', col_author = None,
                   col_isbn = Some ''456''\<rparr>
              # [new_row 9 ''Ulysses'' ''Joyce'' ''789''])
   \<and> Scan (new_row 7 ''Dune'' ''Herbert'' ''123'')
       = Inr \<lparr>ID = 7, Title = ''Dune'', Author = ''Herbert'', ISBN = ''123''\<rparr>
   \<and> Scan \<lparr>col_id = 8, col_title = Some ''Emma'', col_author = None, col_isbn = Some ''456''\<rparr>
       = Inl ''sql: Scan error on column index 2, name "author": converting NULL to string is unsupported''
   \<and> status (fst (getBooks plain_quote ResponseWriter_new \<lparr>URLParam_id = [], Body = []\<rparr>
                     shelf_with_null)) = StatusInternalServerError
   \<and> body (fst (getBooks plain_quote ResponseWriter_new \<lparr>URLParam_id = [], Body = []\<rparr>
                   shelf_with_null))
       = ''sql: Scan error on column index 2, name "author": converting NULL to string is unsupported''
         @ [newline]\<close>
proof -
  let ?pre = "[new_row 7 ''Dune'' ''Herbert'' ''123'']"
  let ?row = "\<lparr>col_id = 8, col_title = Some ''Emma'', col_author = None, col_isbn = Some ''456''\<rparr>"
  let ?post = "[new_row 9 ''Ulysses'' ''Joyce'' ''789'']"
  have a: "fst (db_Query shelf_with_null SELECT_all) = Inr (?pre @ ?row # ?post)"
    by (simp add: db_Query_def run_def Let_def shelf_with_null_def shelf_def)
  have s7: "Scan (new_row 7 ''Dune'' ''Herbert'' ''123'')
              = Inr \<lparr>ID = 7, Title = ''Dune'', Author = ''Herbert'', ISBN = ''123''\<rparr>"
    by (simp add: Scan_def new_row_def)
  have b: "\<forall>x \<in> set ?pre. \<exists>b. Scan x = Inr b"
    by (simp add: s7)
  have c: \<open>Scan ?row = Inl ''sql: Scan error on column index 2, name "author": converting NULL to string is unsupported''\<close>
    by (simp add: Scan_def scan_null_def)
  from getBooks_scan_error_only [OF a b c, of plain_quote "\<lparr>URLParam_id = [], Body = []\<rparr>"] a s7 c
  show ?thesis by simp
qed

text \<open>
  When the query delivers at least one row and every row scans, the body is a JSON array
  with one object for each row, in the order of the rows.
\<close>

lemma getBooks_array:
  assumes "fst (db_Query d SELECT_all) = Inr rows" and "rows \<noteq> []"
      and "\<forall>x \<in> set rows. Scan x = Inr (f x)"
  shows "status (fst (getBooks q ResponseWriter_new r d)) = StatusOK
       \<and> body (fst (getBooks q ResponseWriter_new r d))
           = ''['' @ join (map (marshal_Book q) (map f rows)) @ '']'' @ [newline]"
proof -
  obtain d' where "db_Query d SELECT_all = (Inr rows, d')"
    using assms(1) by (cases "db_Query d SELECT_all") simp
  moreover have "rows_loop rows None = Inr (Some (map f rows))"
    using rows_loop_all [OF assms(3), of None] assms(2) by simp
  ultimately show ?thesis by (simp add: getBooks_def)
qed

text \<open>
  Claim C2. The claim is that \<^verbatim>\<open>GET /books\<close> answers an empty JSON array when the
  table has no rows. The handler declares \<^verbatim>\<open>var books []Book\<close> and appends inside the
  loop only, so with no rows the slice it encodes is still \<^verbatim>\<open>nil\<close>: on an empty table
  the response is status 200 with the body \<^verbatim>\<open>null\<close> and a line feed, not \<^verbatim>\<open>[]\<close>.
\<close>

theorem getBooks_no_rows_writes_null:
  "status (fst (getBooks q ResponseWriter_new r
       \<lparr>books_table = [], next_id = n, fault = None, id_in = f, submitted = s\<rparr>)) = StatusOK
   \<and> body (fst (getBooks q ResponseWriter_new r
       \<lparr>books_table = [], next_id = n, fault = None, id_in = f, submitted = s\<rparr>))
       = ''null'' @ [newline]"
  by (simp add: getBooks_def db_Query_def run_def Let_def)

end
